theory Spec2Isabelle
  imports Main
begin

section \<open>Positions, ranges and the text utilities\<close>

text \<open>
  A shallow embedding of \<^verbatim>\<open>packages/language-server/src/lib/documents/DocumentMapper.ts\<close>.
  JavaScript numbers are modelled as unbounded integers. Several protocol objects share
  field names (\<^verbatim>\<open>line\<close>, \<^verbatim>\<open>start\<close>, \<^verbatim>\<open>range\<close>, ...); the records below keep the
  source's names and the definitions select them with the record's name in front.
\<close>

record Position =
  line :: int
  character :: int

record Range =
  start :: Position
  "end" :: Position

text \<open>
  \<^verbatim>\<open>Range.create(start, end)\<close> of the protocol library, called with two positions:
  the object \<^verbatim>\<open>{ start, end }\<close>.
\<close>

definition Range_create :: "Position \<Rightarrow> Position \<Rightarrow> Range" where
  "Range_create one two = \<lparr>Range.start = one, Range.end = two\<rparr>"

text \<open>
  \<^verbatim>\<open>TagInformation\<close>, \<^verbatim>\<open>offsetAt\<close> and \<^verbatim>\<open>positionAt\<close> are imported from \<^verbatim>\<open>./utils\<close>.
  The mapper reads three fields of the tag; the two functions are parameters of the
  model, collected in the record \<open>TextUtils\<close>.
\<close>

record TagInformation =
  content :: string
  start :: int
  "end" :: int

record TextUtils =
  offsetAt :: "Position \<Rightarrow> string \<Rightarrow> int"
  positionAt :: "int \<Rightarrow> string \<Rightarrow> Position"


section \<open>The mapper interface and its three implementations\<close>

record DocumentMapper =
  getOriginalPosition :: "Position \<Rightarrow> Position"
  getGeneratedPosition :: "Position \<Rightarrow> Position"
  isInGenerated :: "Position \<Rightarrow> bool"
  getURL :: string

subsection \<open>IdentityMapper\<close>

definition IdentityMapper :: "string \<Rightarrow> DocumentMapper" where
  "IdentityMapper url =
     \<lparr>getOriginalPosition = (\<lambda>generatedPosition. generatedPosition),
      getGeneratedPosition = (\<lambda>originalPosition. originalPosition),
      isInGenerated = (\<lambda>_. True),
      getURL = url\<rparr>"

subsection \<open>FragmentMapper\<close>

definition offsetInParent :: "'a TagInformation_scheme \<Rightarrow> int \<Rightarrow> int" where
  "offsetInParent tagInfo offset = TagInformation.start tagInfo + offset"

definition FragmentMapper_getOriginalPosition ::
  "TextUtils \<Rightarrow> string \<Rightarrow> 'a TagInformation_scheme \<Rightarrow> Position \<Rightarrow> Position" where
  "FragmentMapper_getOriginalPosition utils originalText tagInfo generatedPosition =
     (let parentOffset =
            offsetInParent tagInfo (offsetAt utils generatedPosition (content tagInfo))
      in positionAt utils parentOffset originalText)"

definition FragmentMapper_getGeneratedPosition ::
  "TextUtils \<Rightarrow> string \<Rightarrow> 'a TagInformation_scheme \<Rightarrow> Position \<Rightarrow> Position" where
  "FragmentMapper_getGeneratedPosition utils originalText tagInfo originalPosition =
     (let fragmentOffset =
            offsetAt utils originalPosition originalText - TagInformation.start tagInfo
      in positionAt utils fragmentOffset (content tagInfo))"

definition FragmentMapper_isInGenerated ::
  "TextUtils \<Rightarrow> string \<Rightarrow> 'a TagInformation_scheme \<Rightarrow> Position \<Rightarrow> bool" where
  "FragmentMapper_isInGenerated utils originalText tagInfo pos =
     (let offset = offsetAt utils pos originalText
      in offset \<ge> TagInformation.start tagInfo \<and> offset \<le> TagInformation.end tagInfo)"

definition FragmentMapper ::
  "TextUtils \<Rightarrow> string \<Rightarrow> 'a TagInformation_scheme \<Rightarrow> string \<Rightarrow> DocumentMapper" where
  "FragmentMapper utils originalText tagInfo url =
     \<lparr>getOriginalPosition = FragmentMapper_getOriginalPosition utils originalText tagInfo,
      getGeneratedPosition = FragmentMapper_getGeneratedPosition utils originalText tagInfo,
      isInGenerated = FragmentMapper_isInGenerated utils originalText tagInfo,
      getURL = url\<rparr>"

subsection \<open>SourceMapDocumentMapper\<close>

text \<open>
  The \<^verbatim>\<open>SourceMapConsumer\<close> of the \<^verbatim>\<open>source-map\<close> package is the backend. Its two
  queries take an object literal; the model passes the literal's fields as arguments:
  \<open>originalPositionFor consumer line column\<close> and
  \<open>generatedPositionFor consumer line column source\<close>. An answer is \<open>None\<close> for
  \<^verbatim>\<open>null\<close>/\<^verbatim>\<open>undefined\<close>, and otherwise an object whose \<^verbatim>\<open>line\<close> and \<^verbatim>\<open>column\<close>
  are numbers or \<^verbatim>\<open>null\<close>.
\<close>

record NullablePosition =
  line :: "int option"
  column :: "int option"

record SourceMapConsumer =
  originalPositionFor :: "int \<Rightarrow> int \<Rightarrow> NullablePosition option"
  generatedPositionFor :: "int \<Rightarrow> int \<Rightarrow> string \<Rightarrow> NullablePosition option"

text \<open>\<^verbatim>\<open>v || 0\<close> on a nullable number: \<^verbatim>\<open>null\<close> and \<^verbatim>\<open>0\<close> are falsy.\<close>

definition or_zero :: "int option \<Rightarrow> int" where
  "or_zero v = (case v of None \<Rightarrow> 0 | Some n \<Rightarrow> if n = 0 then 0 else n)"

text \<open>
  The call of \<^verbatim>\<open>Logger.log\<close> for a zero line writes a log line and changes nothing
  of the returned position, so the model has no branch for it.
\<close>

definition SourceMapDocumentMapper_getOriginalPosition ::
  "SourceMapConsumer \<Rightarrow> Position \<Rightarrow> Position" where
  "SourceMapDocumentMapper_getOriginalPosition consumer generatedPosition =
     (case originalPositionFor consumer
             (Position.line generatedPosition + 1) (character generatedPosition) of
        None \<Rightarrow> \<lparr>Position.line = - 1, character = - 1\<rparr>
      | Some mapped \<Rightarrow>
          \<lparr>Position.line = or_zero (NullablePosition.line mapped) - 1,
           character = or_zero (column mapped)\<rparr>)"

definition SourceMapDocumentMapper_getGeneratedPosition ::
  "SourceMapConsumer \<Rightarrow> string \<Rightarrow> Position \<Rightarrow> Position" where
  "SourceMapDocumentMapper_getGeneratedPosition consumer sourceUri originalPosition =
     (case generatedPositionFor consumer
             (Position.line originalPosition + 1) (character originalPosition) sourceUri of
        None \<Rightarrow> \<lparr>Position.line = - 1, character = - 1\<rparr>
      | Some mapped \<Rightarrow>
          (let result = \<lparr>Position.line = or_zero (NullablePosition.line mapped) - 1,
                         character = or_zero (column mapped)\<rparr>
           in if Position.line result < 0 then result else result))"

definition SourceMapDocumentMapper_isInGenerated ::
  "SourceMapConsumer \<Rightarrow> string \<Rightarrow> Position \<Rightarrow> bool" where
  "SourceMapDocumentMapper_isInGenerated consumer sourceUri position =
     (let generated = SourceMapDocumentMapper_getGeneratedPosition consumer sourceUri position
      in Position.line generated \<ge> 0)"

definition SourceMapDocumentMapper :: "SourceMapConsumer \<Rightarrow> string \<Rightarrow> DocumentMapper" where
  "SourceMapDocumentMapper consumer sourceUri =
     \<lparr>getOriginalPosition = SourceMapDocumentMapper_getOriginalPosition consumer,
      getGeneratedPosition = SourceMapDocumentMapper_getGeneratedPosition consumer sourceUri,
      isInGenerated = SourceMapDocumentMapper_isInGenerated consumer sourceUri,
      getURL = sourceUri\<rparr>"


section \<open>Protocol objects\<close>

text \<open>
  The result objects of the language-server protocol, with the fields the remapping
  functions read or that the claims name. A spread copy \<^verbatim>\<open>{ ...x, f: v }\<close> is a
  record update, which keeps every other field, also those of an extension of the record.
\<close>

record TextEdit =
  range :: Range
  newText :: string

record Location =
  uri :: string
  range :: Range

record CompletionItem =
  label :: string
  textEdit :: "TextEdit option"

record Hover =
  contents :: string
  range :: "Range option"

record Diagnostic =
  range :: Range
  severity :: "int option"
  code :: "string option"
  source :: "string option"
  message :: string

record 'c ColorInformation =
  range :: Range
  color :: 'c

record ColorPresentation =
  label :: string
  textEdit :: "TextEdit option"
  additionalTextEdits :: "TextEdit list option"

record SymbolInformation =
  name :: string
  kind :: int
  location :: Location
  containerName :: "string option"

record LocationLink =
  originSelectionRange :: "Range option"
  targetUri :: string
  targetRange :: Range
  targetSelectionRange :: Range

record VersionedTextDocumentIdentifier =
  uri :: string
  version :: "int option"

record TextDocumentEdit =
  textDocument :: VersionedTextDocumentIdentifier
  edits :: "TextEdit list"

text \<open>
  An entry of \<^verbatim>\<open>WorkspaceEdit.documentChanges\<close> is a text-document edit or a resource
  operation (create, rename or delete a file: \<^verbatim>\<open>kind\<close> and a uri), which has no
  \<^verbatim>\<open>textDocument\<close>.
\<close>

datatype DocumentChange =
  TextDocumentEditChange TextDocumentEdit
| ResourceOperation string string

record WorkspaceEdit =
  changes :: "(string \<times> TextEdit list) list option"
  documentChanges :: "DocumentChange list option"

record Command =
  title :: string
  command :: string
  arguments :: "string list option"

record CodeAction =
  title :: string
  kind :: "string option"
  diagnostics :: "Diagnostic list option"
  isPreferred :: "bool option"
  edit :: "WorkspaceEdit option"
  command :: "Command option"
  data :: "string option"

text \<open>
  The constructors of the protocol library that the source calls.
  \<^verbatim>\<open>LocationLink.create\<close> and \<^verbatim>\<open>TextDocumentEdit.create\<close> return the object of their
  arguments. \<^verbatim>\<open>CodeAction.create(title, edit, kind)\<close> starts from \<^verbatim>\<open>{ title }\<close>, stores
  the second argument as \<^verbatim>\<open>edit\<close> (it is neither a string nor a command) and sets
  \<^verbatim>\<open>kind\<close> when it is defined.
\<close>

definition LocationLink_create ::
  "string \<Rightarrow> Range \<Rightarrow> Range \<Rightarrow> Range option \<Rightarrow> LocationLink" where
  "LocationLink_create targetUri' targetRange' targetSelectionRange' originSelectionRange' =
     \<lparr>originSelectionRange = originSelectionRange', targetUri = targetUri',
      targetRange = targetRange', targetSelectionRange = targetSelectionRange'\<rparr>"

definition TextDocumentEdit_create ::
  "VersionedTextDocumentIdentifier \<Rightarrow> TextEdit list \<Rightarrow> TextDocumentEdit" where
  "TextDocumentEdit_create textDocument' edits' =
     \<lparr>textDocument = textDocument', edits = edits'\<rparr>"

definition CodeAction_create ::
  "string \<Rightarrow> WorkspaceEdit \<Rightarrow> string option \<Rightarrow> CodeAction" where
  "CodeAction_create title' edit' kind' =
     \<lparr>CodeAction.title = title', kind = kind', diagnostics = None, isPreferred = None,
      edit = Some edit', command = None, data = None\<rparr>"


section \<open>The remapping functions\<close>

definition mapRangeToOriginal :: "DocumentMapper \<Rightarrow> Range \<Rightarrow> Range" where
  "mapRangeToOriginal fragment range' =
     Range_create (getOriginalPosition fragment (Range.start range'))
                  (getOriginalPosition fragment (Range.end range'))"

definition mapRangeToGenerated :: "DocumentMapper \<Rightarrow> Range \<Rightarrow> Range" where
  "mapRangeToGenerated fragment range' =
     Range_create (getGeneratedPosition fragment (Range.start range'))
                  (getGeneratedPosition fragment (Range.end range'))"

definition mapTextEditToOriginal ::
  "DocumentMapper \<Rightarrow> 'a TextEdit_scheme \<Rightarrow> 'a TextEdit_scheme" where
  "mapTextEditToOriginal fragment edit' =
     edit'\<lparr>TextEdit.range := mapRangeToOriginal fragment (TextEdit.range edit')\<rparr>"

definition mapLocationToOriginal ::
  "DocumentMapper \<Rightarrow> 'a Location_scheme \<Rightarrow> 'a Location_scheme" where
  "mapLocationToOriginal fragment loc =
     loc\<lparr>Location.range := mapRangeToOriginal fragment (Location.range loc)\<rparr>"

definition mapCompletionItemToOriginal ::
  "DocumentMapper \<Rightarrow> 'a CompletionItem_scheme \<Rightarrow> 'a CompletionItem_scheme" where
  "mapCompletionItemToOriginal fragment item =
     (case CompletionItem.textEdit item of
        None \<Rightarrow> item
      | Some textEdit' \<Rightarrow>
          item\<lparr>CompletionItem.textEdit := Some (mapTextEditToOriginal fragment textEdit')\<rparr>)"

definition mapHoverToParent :: "DocumentMapper \<Rightarrow> 'a Hover_scheme \<Rightarrow> 'a Hover_scheme" where
  "mapHoverToParent fragment hover =
     (case Hover.range hover of
        None \<Rightarrow> hover
      | Some range' \<Rightarrow> hover\<lparr>Hover.range := Some (mapRangeToOriginal fragment range')\<rparr>)"

definition mapDiagnosticToOriginal ::
  "DocumentMapper \<Rightarrow> 'a Diagnostic_scheme \<Rightarrow> 'a Diagnostic_scheme" where
  "mapDiagnosticToOriginal fragment diagnostic =
     diagnostic\<lparr>Diagnostic.range := mapRangeToOriginal fragment (Diagnostic.range diagnostic)\<rparr>"

definition mapDiagnosticToGenerated ::
  "DocumentMapper \<Rightarrow> 'a Diagnostic_scheme \<Rightarrow> 'a Diagnostic_scheme" where
  "mapDiagnosticToGenerated fragment diagnostic =
     diagnostic\<lparr>Diagnostic.range := mapRangeToGenerated fragment (Diagnostic.range diagnostic)\<rparr>"

definition mapColorInformationToOriginal ::
  "DocumentMapper \<Rightarrow> ('c, 'a) ColorInformation_scheme \<Rightarrow> ('c, 'a) ColorInformation_scheme" where
  "mapColorInformationToOriginal fragment info =
     info\<lparr>ColorInformation.range := mapRangeToOriginal fragment (ColorInformation.range info)\<rparr>"

definition mapColorPresentationToOriginal ::
  "DocumentMapper \<Rightarrow> 'a ColorPresentation_scheme \<Rightarrow> 'a ColorPresentation_scheme" where
  "mapColorPresentationToOriginal fragment presentation =
     (let item = presentation;
          item = (case ColorPresentation.textEdit item of
                    None \<Rightarrow> item
                  | Some textEdit' \<Rightarrow>
                      item\<lparr>ColorPresentation.textEdit :=
                             Some (mapTextEditToOriginal fragment textEdit')\<rparr>);
          item = (case additionalTextEdits item of
                    None \<Rightarrow> item
                  | Some additional \<Rightarrow>
                      item\<lparr>additionalTextEdits :=
                             Some (map (\<lambda>edit'. mapTextEditToOriginal fragment edit')
                                       additional)\<rparr>)
      in item)"

definition mapSymbolInformationToOriginal ::
  "DocumentMapper \<Rightarrow> 'a SymbolInformation_scheme \<Rightarrow> 'a SymbolInformation_scheme" where
  "mapSymbolInformationToOriginal fragment info =
     info\<lparr>location := mapLocationToOriginal fragment (location info)\<rparr>"

definition mapLocationLinkToOriginal :: "DocumentMapper \<Rightarrow> LocationLink \<Rightarrow> LocationLink" where
  "mapLocationLinkToOriginal fragment def =
     LocationLink_create
       (targetUri def)
       (if getURL fragment = targetUri def
        then mapRangeToOriginal fragment (targetRange def)
        else targetRange def)
       (if getURL fragment = targetUri def
        then mapRangeToOriginal fragment (targetSelectionRange def)
        else targetSelectionRange def)
       (case originSelectionRange def of
          Some range' \<Rightarrow> Some (mapRangeToOriginal fragment range')
        | None \<Rightarrow> None)"

definition mapTextDocumentEditToOriginal ::
  "DocumentMapper \<Rightarrow> TextDocumentEdit \<Rightarrow> TextDocumentEdit" where
  "mapTextDocumentEditToOriginal fragment edit' =
     (if VersionedTextDocumentIdentifier.uri (textDocument edit') \<noteq> getURL fragment
      then edit'
      else TextDocumentEdit_create
             (textDocument edit')
             (map (\<lambda>textEdit'. mapTextEditToOriginal fragment textEdit') (edits edit')))"

text \<open>
  \<^verbatim>\<open>mapCodeActionToOriginal\<close> asserts with \<^verbatim>\<open>!\<close> that \<^verbatim>\<open>edit\<close> and
  \<^verbatim>\<open>documentChanges\<close> are present and casts every entry to a text-document edit.
  Neither is checked at run time: calling \<^verbatim>\<open>map\<close> on an absent list, and reading
  \<^verbatim>\<open>textDocument.uri\<close> of a resource operation, throw a \<^verbatim>\<open>TypeError\<close>.
  The callback of \<^verbatim>\<open>Array.prototype.map\<close> runs from the first entry on, and the first
  throw ends the call.
\<close>

datatype error = TypeError

definition mapDocumentChange :: "DocumentMapper \<Rightarrow> DocumentChange \<Rightarrow> error + DocumentChange" where
  "mapDocumentChange fragment change =
     (case change of
        TextDocumentEditChange edit' \<Rightarrow>
          Inr (TextDocumentEditChange (mapTextDocumentEditToOriginal fragment edit'))
      | ResourceOperation _ _ \<Rightarrow> Inl TypeError)"

fun map_throwing :: "('a \<Rightarrow> error + 'b) \<Rightarrow> 'a list \<Rightarrow> error + 'b list" where
  "map_throwing f [] = Inr []"
| "map_throwing f (x # xs) =
     (case f x of
        Inl e \<Rightarrow> Inl e
      | Inr y \<Rightarrow> (case map_throwing f xs of Inl e \<Rightarrow> Inl e | Inr ys \<Rightarrow> Inr (y # ys)))"

definition mapCodeActionToOriginal :: "DocumentMapper \<Rightarrow> CodeAction \<Rightarrow> error + CodeAction" where
  "mapCodeActionToOriginal fragment codeAction =
     (case edit codeAction of
        None \<Rightarrow> Inl TypeError
      | Some edit' \<Rightarrow>
          (case documentChanges edit' of
             None \<Rightarrow> Inl TypeError
           | Some changes' \<Rightarrow>
               (case map_throwing (mapDocumentChange fragment) changes' of
                  Inl e \<Rightarrow> Inl e
                | Inr mapped \<Rightarrow>
                    Inr (CodeAction_create
                           (CodeAction.title codeAction)
                           \<lparr>changes = None, documentChanges = Some mapped\<rparr>
                           (kind codeAction)))))"


section \<open>Assumptions on the text utilities, and concrete inputs\<close>

text \<open>
  \<open>positionAt\<close> followed by \<open>offsetAt\<close> gives back every valid offset of a text
  (from 0 to the length of the text, both included).
\<close>

definition inverse_on_valid_offsets :: "TextUtils \<Rightarrow> string \<Rightarrow> bool" where
  "inverse_on_valid_offsets utils text \<longleftrightarrow>
     (\<forall>offset \<in> {0 .. int (length text)}.
        offsetAt utils (positionAt utils offset text) text = offset)"

text \<open>
  Modelled from the spec: \<^verbatim>\<open>offsetAt\<close> and \<^verbatim>\<open>positionAt\<close> of \<^verbatim>\<open>./utils\<close> are not
  among the sources; the spec describes them as converting "between a (line, column)
  position and a linear character offset within a given text string". \<open>line_utils\<close> is
  one such pair, used where a theorem is applied to a concrete text: lines end at a
  line feed, and an argument outside the text is moved to the nearest place inside.
  \<open>positionAt_from l c n text\<close> walks \<open>n\<close> characters into \<open>text\<close> starting at line \<open>l\<close>,
  column \<open>c\<close>; \<open>offsetAt_from l c text\<close> counts the characters passed when skipping
  \<open>l\<close> lines and then \<open>c\<close> columns.
\<close>

fun positionAt_from :: "int \<Rightarrow> int \<Rightarrow> nat \<Rightarrow> string \<Rightarrow> Position" where
  "positionAt_from l c 0 text = \<lparr>Position.line = l, character = c\<rparr>"
| "positionAt_from l c (Suc n) [] = \<lparr>Position.line = l, character = c\<rparr>"
| "positionAt_from l c (Suc n) (x # text) =
     (if x = CHR 0x0A then positionAt_from (l + 1) 0 n text
      else positionAt_from l (c + 1) n text)"

fun offsetAt_from :: "nat \<Rightarrow> nat \<Rightarrow> string \<Rightarrow> nat" where
  "offsetAt_from l c [] = 0"
| "offsetAt_from 0 0 (x # text) = 0"
| "offsetAt_from 0 (Suc c) (x # text) =
     (if x = CHR 0x0A then 1 else Suc (offsetAt_from 0 c text))"
| "offsetAt_from (Suc l) c (x # text) =
     Suc (if x = CHR 0x0A then offsetAt_from l c text else offsetAt_from (Suc l) c text)"

definition line_utils :: TextUtils where
  "line_utils =
     \<lparr>offsetAt = (\<lambda>position text.
         if Position.line position < 0 then 0
         else int (offsetAt_from (nat (Position.line position))
                                 (nat (character position)) text)),
      positionAt = (\<lambda>offset text. positionAt_from 0 0 (nat offset) text)\<rparr>"

text \<open>The parent document and the fragment of the spec's end-to-end scenario.\<close>

definition parent_text :: string where
  "parent_text = ''abcLINE2\<newline>fragment-body\<newline>end''"

definition fragment_tag :: TagInformation where
  "fragment_tag =
     \<lparr>content = ''fragment-body\<newline>'', TagInformation.start = 9, TagInformation.end = 22\<rparr>"

definition fragment_mapper :: DocumentMapper where
  "fragment_mapper = FragmentMapper line_utils parent_text fragment_tag ''a.txt''"

text \<open>
  Three backends: one with no answer, one that answers every query with line 0 and
  column 5, and one that answers with the line and column it was asked about.
\<close>

definition null_consumer :: SourceMapConsumer where
  "null_consumer =
     \<lparr>originalPositionFor = (\<lambda>line' column'. None),
      generatedPositionFor = (\<lambda>line' column' source'. None)\<rparr>"

definition zero_line_consumer :: SourceMapConsumer where
  "zero_line_consumer =
     \<lparr>originalPositionFor =
        (\<lambda>line' column'. Some \<lparr>NullablePosition.line = Some 0, column = Some 5\<rparr>),
      generatedPositionFor =
        (\<lambda>line' column' source'. Some \<lparr>NullablePosition.line = Some 0, column = Some 5\<rparr>)\<rparr>"

definition echo_consumer :: SourceMapConsumer where
  "echo_consumer =
     \<lparr>originalPositionFor =
        (\<lambda>line' column'. Some \<lparr>NullablePosition.line = Some line', column = Some column'\<rparr>),
      generatedPositionFor =
        (\<lambda>line' column' source'.
           Some \<lparr>NullablePosition.line = Some line', column = Some column'\<rparr>)\<rparr>"

definition fixed_consumer :: SourceMapConsumer where
  "fixed_consumer =
     \<lparr>originalPositionFor =
        (\<lambda>line' column'. Some \<lparr>NullablePosition.line = Some 4, column = Some 7\<rparr>),
      generatedPositionFor =
        (\<lambda>line' column' source'. Some \<lparr>NullablePosition.line = Some 4, column = Some 7\<rparr>)\<rparr>"

text \<open>
  Protocol objects for \<open>fragment_mapper\<close>, whose URL is \<^verbatim>\<open>a.txt\<close>: the generated range
  from (0, 0) to (0, 5) is the original range from (1, 0) to (1, 5).
\<close>

definition generated_range :: Range where
  "generated_range =
     \<lparr>Range.start = \<lparr>Position.line = 0, character = 0\<rparr>,
      Range.end = \<lparr>Position.line = 0, character = 5\<rparr>\<rparr>"

definition original_range :: Range where
  "original_range =
     \<lparr>Range.start = \<lparr>Position.line = 1, character = 0\<rparr>,
      Range.end = \<lparr>Position.line = 1, character = 5\<rparr>\<rparr>"

definition link_to :: "string \<Rightarrow> LocationLink" where
  "link_to target =
     \<lparr>originSelectionRange = Some generated_range, targetUri = target,
      targetRange = generated_range, targetSelectionRange = generated_range\<rparr>"

definition edits_of :: "string \<Rightarrow> TextDocumentEdit" where
  "edits_of owner =
     \<lparr>textDocument = \<lparr>VersionedTextDocumentIdentifier.uri = owner, version = Some 1\<rparr>,
      edits = [\<lparr>TextEdit.range = generated_range, newText = ''x''\<rparr>,
               \<lparr>TextEdit.range = generated_range, newText = ''y''\<rparr>]\<rparr>"

definition quick_fix :: CodeAction where
  "quick_fix =
     \<lparr>CodeAction.title = ''Fix'', kind = Some ''quickfix'',
      diagnostics = Some [\<lparr>Diagnostic.range = generated_range, severity = Some 1,
                           code = None, source = Some ''ts'', message = ''m''\<rparr>],
      isPreferred = Some True,
      edit = Some \<lparr>changes = None,
                   documentChanges = Some (map TextDocumentEditChange
                                               [edits_of ''a.txt'', edits_of ''b.txt''])\<rparr>,
      command = Some \<lparr>Command.title = ''Run'', command = ''run'', arguments = None\<rparr>,
      data = Some ''d''\<rparr>"

definition plain_item :: CompletionItem where
  "plain_item = \<lparr>CompletionItem.label = ''item'', textEdit = None\<rparr>"

definition plain_hover :: Hover where
  "plain_hover = \<lparr>contents = ''text'', Hover.range = None\<rparr>"

text \<open>
  One object for each remapping function of claim C9, with ranges on line 0 of the
  fragment; the color presentation has a primary edit and two additional edits, each
  with a range of its own.
\<close>

definition line_range :: "int \<Rightarrow> int \<Rightarrow> int \<Rightarrow> Range" where
  "line_range l a b =
     \<lparr>Range.start = \<lparr>Position.line = l, character = a\<rparr>,
      Range.end = \<lparr>Position.line = l, character = b\<rparr>\<rparr>"

definition sample_diagnostic :: Diagnostic where
  "sample_diagnostic =
     \<lparr>Diagnostic.range = line_range 0 0 5, severity = Some 1, code = Some ''2304'',
      source = Some ''ts'', message = ''Cannot find name''\<rparr>"

definition sample_color :: "string ColorInformation" where
  "sample_color = \<lparr>ColorInformation.range = line_range 0 1 2, color = ''red''\<rparr>"

definition sample_location :: Location where
  "sample_location = \<lparr>Location.uri = ''a.txt'', range = line_range 0 3 13\<rparr>"

definition sample_edit :: TextEdit where
  "sample_edit = \<lparr>TextEdit.range = line_range 0 2 3, newText = ''new''\<rparr>"

definition sample_symbol :: SymbolInformation where
  "sample_symbol =
     \<lparr>name = ''body'', SymbolInformation.kind = 13, location = sample_location,
      containerName = Some ''fragment''\<rparr>"

definition red_presentation :: ColorPresentation where
  "red_presentation =
     \<lparr>ColorPresentation.label = ''red'',
      textEdit = Some \<lparr>TextEdit.range = line_range 0 0 5, newText = ''red''\<rparr>,
      additionalTextEdits =
        Some [\<lparr>TextEdit.range = line_range 0 1 2, newText = ''p''\<rparr>,
              \<lparr>TextEdit.range = line_range 0 3 13, newText = ''q''\<rparr>]\<rparr>"


section \<open>Selecting the methods of a mapper\<close>

lemma SourceMapDocumentMapper_selectors:
  "getOriginalPosition (SourceMapDocumentMapper consumer sourceUri) =
     SourceMapDocumentMapper_getOriginalPosition consumer"
  "getGeneratedPosition (SourceMapDocumentMapper consumer sourceUri) =
     SourceMapDocumentMapper_getGeneratedPosition consumer sourceUri"
  "isInGenerated (SourceMapDocumentMapper consumer sourceUri) =
     SourceMapDocumentMapper_isInGenerated consumer sourceUri"
  "getURL (SourceMapDocumentMapper consumer sourceUri) = sourceUri"
  by (simp_all add: SourceMapDocumentMapper_def)

lemma FragmentMapper_selectors:
  "getOriginalPosition (FragmentMapper utils originalText tagInfo url) =
     FragmentMapper_getOriginalPosition utils originalText tagInfo"
  "getGeneratedPosition (FragmentMapper utils originalText tagInfo url) =
     FragmentMapper_getGeneratedPosition utils originalText tagInfo"
  "isInGenerated (FragmentMapper utils originalText tagInfo url) =
     FragmentMapper_isInGenerated utils originalText tagInfo"
  "getURL (FragmentMapper utils originalText tagInfo url) = url"
  by (simp_all add: FragmentMapper_def)


section \<open>The backend-delegating mapper\<close>

text \<open>
  Claim C1, as stated, fails: a backend that answers the query for generated position
  (0, 0) with line 0 and column 5 makes \<open>getOriginalPosition\<close> return a position
  other than the sentinel (-1, -1).
\<close>

theorem SourceMapDocumentMapper_zero_line_counterexample:
  "originalPositionFor zero_line_consumer 1 0 =
     Some \<lparr>NullablePosition.line = Some 0, column = Some 5\<rparr>
   \<and> getOriginalPosition (SourceMapDocumentMapper zero_line_consumer ''a.svelte'')
         \<lparr>Position.line = 0, character = 0\<rparr>
       \<noteq> \<lparr>Position.line = - 1, character = - 1\<rparr>"
  by (simp add: SourceMapDocumentMapper_selectors SourceMapDocumentMapper_getOriginalPosition_def
      zero_line_consumer_def or_zero_def)

text \<open>
  Claim C1, amended: when the backend returns null, \<open>getOriginalPosition\<close> and
  \<open>getGeneratedPosition\<close> return the sentinel (-1, -1); when it returns a mapping whose
  line is 0, they return line -1 with the character taken from the mapping's column
  (0 when the column is null); in both cases \<open>isInGenerated\<close> for the original
  position is false.
\<close>

theorem SourceMapDocumentMapper_miss_handling:
  "(originalPositionFor consumer (Position.line p + 1) (character p) = None \<longrightarrow>
      getOriginalPosition (SourceMapDocumentMapper consumer sourceUri) p
        = \<lparr>Position.line = - 1, character = - 1\<rparr>)
   \<and> (originalPositionFor consumer (Position.line p + 1) (character p) = Some mapped
        \<and> NullablePosition.line mapped = Some 0 \<longrightarrow>
      getOriginalPosition (SourceMapDocumentMapper consumer sourceUri) p
        = \<lparr>Position.line = - 1, character = or_zero (column mapped)\<rparr>)
   \<and> (generatedPositionFor consumer (Position.line p + 1) (character p) sourceUri = None \<longrightarrow>
      getGeneratedPosition (SourceMapDocumentMapper consumer sourceUri) p
        = \<lparr>Position.line = - 1, character = - 1\<rparr>
      \<and> \<not> isInGenerated (SourceMapDocumentMapper consumer sourceUri) p)
   \<and> (generatedPositionFor consumer (Position.line p + 1) (character p) sourceUri = Some mapped'
        \<and> NullablePosition.line mapped' = Some 0 \<longrightarrow>
      getGeneratedPosition (SourceMapDocumentMapper consumer sourceUri) p
        = \<lparr>Position.line = - 1, character = or_zero (column mapped')\<rparr>
      \<and> \<not> isInGenerated (SourceMapDocumentMapper consumer sourceUri) p)"
  by (simp add: SourceMapDocumentMapper_selectors SourceMapDocumentMapper_getOriginalPosition_def
      SourceMapDocumentMapper_getGeneratedPosition_def SourceMapDocumentMapper_isInGenerated_def
      or_zero_def)

text \<open>
  The amended C1 at position (0, 0), for the backend without an answer and for the
  backend that answers with line 0 and column 5.
\<close>

theorem SourceMapDocumentMapper_miss_handling_witness:
  "originalPositionFor null_consumer (0 + 1) 0 = None
   \<and> getOriginalPosition (SourceMapDocumentMapper null_consumer ''a.svelte'')
         \<lparr>Position.line = 0, character = 0\<rparr> = \<lparr>Position.line = - 1, character = - 1\<rparr>
   \<and> generatedPositionFor null_consumer (0 + 1) 0 ''a.svelte'' = None
   \<and> getGeneratedPosition (SourceMapDocumentMapper null_consumer ''a.svelte'')
         \<lparr>Position.line = 0, character = 0\<rparr> = \<lparr>Position.line = - 1, character = - 1\<rparr>
   \<and> \<not> isInGenerated (SourceMapDocumentMapper null_consumer ''a.svelte'')
         \<lparr>Position.line = 0, character = 0\<rparr>
   \<and> originalPositionFor zero_line_consumer (0 + 1) 0
       = Some \<lparr>NullablePosition.line = Some 0, column = Some 5\<rparr>
   \<and> getOriginalPosition (SourceMapDocumentMapper zero_line_consumer ''a.svelte'')
         \<lparr>Position.line = 0, character = 0\<rparr> = \<lparr>Position.line = - 1, character = 5\<rparr>
   \<and> generatedPositionFor zero_line_consumer (0 + 1) 0 ''a.svelte''
       = Some \<lparr>NullablePosition.line = Some 0, column = Some 5\<rparr>
   \<and> getGeneratedPosition (SourceMapDocumentMapper zero_line_consumer ''a.svelte'')
         \<lparr>Position.line = 0, character = 0\<rparr> = \<lparr>Position.line = - 1, character = 5\<rparr>
   \<and> \<not> isInGenerated (SourceMapDocumentMapper zero_line_consumer ''a.svelte'')
         \<lparr>Position.line = 0, character = 0\<rparr>"
proof -
  let ?p = "\<lparr>Position.line = 0, character = 0\<rparr>"
  let ?zero = "\<lparr>NullablePosition.line = Some 0, column = Some 5\<rparr>"
  have no_answer:
    "originalPositionFor null_consumer (Position.line ?p + 1) (character ?p) = None"
    "generatedPositionFor null_consumer (Position.line ?p + 1) (character ?p) ''a.svelte'' = None"
    by (simp_all add: null_consumer_def)
  have zero_answer:
    "originalPositionFor zero_line_consumer (Position.line ?p + 1) (character ?p) = Some ?zero"
    "generatedPositionFor zero_line_consumer (Position.line ?p + 1) (character ?p) ''a.svelte''
       = Some ?zero"
    "NullablePosition.line ?zero = Some 0"
    by (simp_all add: zero_line_consumer_def)
  show ?thesis
    using no_answer zero_answer
      SourceMapDocumentMapper_miss_handling
        [where consumer = null_consumer and p = ?p and sourceUri = "''a.svelte''"
           and mapped = ?zero and mapped' = ?zero]
      SourceMapDocumentMapper_miss_handling
        [where consumer = zero_line_consumer and p = ?p and sourceUri = "''a.svelte''"
           and mapped = ?zero and mapped' = ?zero]
    by (simp add: or_zero_def)
qed


text \<open>
  Claim C2, as stated, fails: the backend's answer with line 0 and column 5 to the query
  for original position (0, 0) is rendered as core line -1 together with the column of
  the answer, as the character of a genuine mapping would be.
\<close>

theorem SourceMapDocumentMapper_zero_line_rendering_counterexample:
  "generatedPositionFor zero_line_consumer 1 0 ''a.svelte'' =
     Some \<lparr>NullablePosition.line = Some 0, column = Some 5\<rparr>
   \<and> getGeneratedPosition (SourceMapDocumentMapper zero_line_consumer ''a.svelte'')
         \<lparr>Position.line = 0, character = 0\<rparr>
       = \<lparr>Position.line = - 1, character = 5\<rparr>"
  by (simp add: SourceMapDocumentMapper_selectors
      SourceMapDocumentMapper_getGeneratedPosition_def zero_line_consumer_def or_zero_def)

text \<open>
  Claim C2, amended: the result of a query depends on the backend only through its
  answer at line + 1 and the unchanged character of the position (for
  \<open>getGeneratedPosition\<close> also the source URL); an answer whose line is \<open>n \<ge> 1\<close> is
  rendered as core line \<open>n - 1\<close>, so line 1 becomes core line 0; an answer whose line is
  0 is rendered as core line -1 with the character taken from the answer's column, and
  differs from a genuine mapping by its negative line only.
\<close>

theorem SourceMapDocumentMapper_convention:
  "(originalPositionFor consumer (Position.line p + 1) (character p)
      = originalPositionFor consumer' (Position.line p + 1) (character p) \<longrightarrow>
      getOriginalPosition (SourceMapDocumentMapper consumer sourceUri) p
        = getOriginalPosition (SourceMapDocumentMapper consumer' sourceUri) p)
   \<and> (generatedPositionFor consumer (Position.line p + 1) (character p) sourceUri
      = generatedPositionFor consumer' (Position.line p + 1) (character p) sourceUri \<longrightarrow>
      getGeneratedPosition (SourceMapDocumentMapper consumer sourceUri) p
        = getGeneratedPosition (SourceMapDocumentMapper consumer' sourceUri) p)
   \<and> (originalPositionFor consumer (Position.line p + 1) (character p) = Some mapped
        \<and> NullablePosition.line mapped = Some n \<and> 1 \<le> n \<longrightarrow>
      getOriginalPosition (SourceMapDocumentMapper consumer sourceUri) p
        = \<lparr>Position.line = n - 1, character = or_zero (column mapped)\<rparr>)
   \<and> (generatedPositionFor consumer (Position.line p + 1) (character p) sourceUri = Some mapped'
        \<and> NullablePosition.line mapped' = Some n' \<and> 1 \<le> n' \<longrightarrow>
      getGeneratedPosition (SourceMapDocumentMapper consumer sourceUri) p
        = \<lparr>Position.line = n' - 1, character = or_zero (column mapped')\<rparr>)
   \<and> (originalPositionFor consumer (Position.line p + 1) (character p) = Some mapped
        \<and> NullablePosition.line mapped = Some 0 \<longrightarrow>
      getOriginalPosition (SourceMapDocumentMapper consumer sourceUri) p
        = \<lparr>Position.line = - 1, character = or_zero (column mapped)\<rparr>)
   \<and> (generatedPositionFor consumer (Position.line p + 1) (character p) sourceUri = Some mapped'
        \<and> NullablePosition.line mapped' = Some 0 \<longrightarrow>
      getGeneratedPosition (SourceMapDocumentMapper consumer sourceUri) p
        = \<lparr>Position.line = - 1, character = or_zero (column mapped')\<rparr>)"
  by (simp add: SourceMapDocumentMapper_selectors SourceMapDocumentMapper_getOriginalPosition_def
      SourceMapDocumentMapper_getGeneratedPosition_def or_zero_def)

text \<open>
  The amended C2 at position (3, 7): the backend that repeats its query is asked about
  line 4 and column 7, as is the backend that always answers with line 4 and column 7,
  and the answer is rendered as (3, 7); the answer with line 0 and column 5 is rendered
  as (-1, 5).
\<close>

theorem SourceMapDocumentMapper_convention_witness:
  "originalPositionFor echo_consumer (3 + 1) 7 = originalPositionFor fixed_consumer (3 + 1) 7
   \<and> generatedPositionFor echo_consumer (3 + 1) 7 ''a.svelte''
       = generatedPositionFor fixed_consumer (3 + 1) 7 ''a.svelte''
   \<and> originalPositionFor echo_consumer (3 + 1) 7
       = Some \<lparr>NullablePosition.line = Some 4, column = Some 7\<rparr>
   \<and> (1::int) \<le> 4
   \<and> getOriginalPosition (SourceMapDocumentMapper echo_consumer ''a.svelte'')
         \<lparr>Position.line = 3, character = 7\<rparr> = \<lparr>Position.line = 3, character = 7\<rparr>
   \<and> getOriginalPosition (SourceMapDocumentMapper fixed_consumer ''a.svelte'')
         \<lparr>Position.line = 3, character = 7\<rparr> = \<lparr>Position.line = 3, character = 7\<rparr>
   \<and> getGeneratedPosition (SourceMapDocumentMapper echo_consumer ''a.svelte'')
         \<lparr>Position.line = 3, character = 7\<rparr> = \<lparr>Position.line = 3, character = 7\<rparr>
   \<and> getGeneratedPosition (SourceMapDocumentMapper fixed_consumer ''a.svelte'')
         \<lparr>Position.line = 3, character = 7\<rparr> = \<lparr>Position.line = 3, character = 7\<rparr>
   \<and> originalPositionFor zero_line_consumer (3 + 1) 7
       = Some \<lparr>NullablePosition.line = Some 0, column = Some 5\<rparr>
   \<and> getOriginalPosition (SourceMapDocumentMapper zero_line_consumer ''a.svelte'')
         \<lparr>Position.line = 3, character = 7\<rparr> = \<lparr>Position.line = - 1, character = 5\<rparr>
   \<and> getGeneratedPosition (SourceMapDocumentMapper zero_line_consumer ''a.svelte'')
         \<lparr>Position.line = 3, character = 7\<rparr> = \<lparr>Position.line = - 1, character = 5\<rparr>"
proof -
  let ?p = "\<lparr>Position.line = 3, character = 7\<rparr>"
  let ?genuine = "\<lparr>NullablePosition.line = Some 4, column = Some 7\<rparr>"
  let ?zero = "\<lparr>NullablePosition.line = Some 0, column = Some 5\<rparr>"
  have same_answer:
    "originalPositionFor echo_consumer (Position.line ?p + 1) (character ?p)
       = originalPositionFor fixed_consumer (Position.line ?p + 1) (character ?p)"
    "generatedPositionFor echo_consumer (Position.line ?p + 1) (character ?p) ''a.svelte''
       = generatedPositionFor fixed_consumer (Position.line ?p + 1) (character ?p) ''a.svelte''"
    by (simp_all add: echo_consumer_def fixed_consumer_def)
  have genuine_answer:
    "originalPositionFor echo_consumer (Position.line ?p + 1) (character ?p) = Some ?genuine"
    "generatedPositionFor echo_consumer (Position.line ?p + 1) (character ?p) ''a.svelte''
       = Some ?genuine"
    "NullablePosition.line ?genuine = Some 4" "(1::int) \<le> 4"
    by (simp_all add: echo_consumer_def)
  have zero_answer:
    "originalPositionFor zero_line_consumer (Position.line ?p + 1) (character ?p) = Some ?zero"
    "generatedPositionFor zero_line_consumer (Position.line ?p + 1) (character ?p) ''a.svelte''
       = Some ?zero"
    "NullablePosition.line ?zero = Some 0"
    by (simp_all add: zero_line_consumer_def)
  show ?thesis
    using same_answer genuine_answer zero_answer
      SourceMapDocumentMapper_convention
        [where consumer = echo_consumer and consumer' = fixed_consumer and p = ?p
           and sourceUri = "''a.svelte''" and mapped = ?genuine and mapped' = ?genuine
           and n = 4 and n' = 4]
      SourceMapDocumentMapper_convention
        [where consumer = zero_line_consumer and consumer' = zero_line_consumer and p = ?p
           and sourceUri = "''a.svelte''" and mapped = ?zero and mapped' = ?zero
           and n = 1 and n' = 1]
    by (auto simp add: or_zero_def)
qed


section \<open>The fragment mapper\<close>

text \<open>
  Claim C3: for a fragment descriptor of a region inside the parent text
  (\<open>0 \<le> start\<close> and \<open>end \<le> length originalText\<close>) and a generated position \<open>p\<close>
  whose offset in the fragment's text lies between 0 and the fragment's length
  \<open>end - start\<close>, both included, \<open>getGeneratedPosition (getOriginalPosition p) = p\<close>.
  The utilities are assumed to be mutually inverse where the round trip uses them:
  \<open>positionAt\<close> followed by \<open>offsetAt\<close> is the identity on the valid offsets of the
  parent text, and \<open>offsetAt\<close> followed by \<open>positionAt\<close> gives back \<open>p\<close> in the
  fragment's text.
\<close>

theorem FragmentMapper_round_trip:
  assumes "0 \<le> TagInformation.start tagInfo"
    and "TagInformation.end tagInfo \<le> int (length originalText)"
    and "inverse_on_valid_offsets utils originalText"
    and "positionAt utils (offsetAt utils p (content tagInfo)) (content tagInfo) = p"
    and "0 \<le> offsetAt utils p (content tagInfo)"
    and "offsetAt utils p (content tagInfo)
           \<le> TagInformation.end tagInfo - TagInformation.start tagInfo"
  shows "getGeneratedPosition (FragmentMapper utils originalText tagInfo url)
           (getOriginalPosition (FragmentMapper utils originalText tagInfo url) p) = p"
proof -
  let ?local = "offsetAt utils p (content tagInfo)"
  let ?parentOffset = "TagInformation.start tagInfo + ?local"
  have "?parentOffset \<in> {0 .. int (length originalText)}"
    using assms(1,2,5,6) by simp
  with assms(3)
  have parent_inverse:
    "offsetAt utils (positionAt utils ?parentOffset originalText) originalText = ?parentOffset"
    unfolding inverse_on_valid_offsets_def by blast
  show ?thesis
    by (simp add: FragmentMapper_selectors FragmentMapper_getOriginalPosition_def
        FragmentMapper_getGeneratedPosition_def offsetInParent_def parent_inverse assms(4))
qed

text \<open>
  C3 on the end-to-end scenario of the spec: generated position (0, 5) has offset 5 in
  the fragment, maps to the original position (1, 5) and back to (0, 5).
\<close>

theorem FragmentMapper_round_trip_witness:
  "0 \<le> TagInformation.start fragment_tag
   \<and> TagInformation.end fragment_tag \<le> int (length parent_text)
   \<and> inverse_on_valid_offsets line_utils parent_text
   \<and> offsetAt line_utils \<lparr>Position.line = 0, character = 5\<rparr> (content fragment_tag) = 5
   \<and> positionAt line_utils 5 (content fragment_tag) = \<lparr>Position.line = 0, character = 5\<rparr>
   \<and> getOriginalPosition fragment_mapper \<lparr>Position.line = 0, character = 5\<rparr>
       = \<lparr>Position.line = 1, character = 5\<rparr>
   \<and> getGeneratedPosition fragment_mapper
         (getOriginalPosition fragment_mapper \<lparr>Position.line = 0, character = 5\<rparr>)
       = \<lparr>Position.line = 0, character = 5\<rparr>"
proof -
  let ?p = "\<lparr>Position.line = 0, character = 5\<rparr>"
  have region: "0 \<le> TagInformation.start fragment_tag"
    "TagInformation.end fragment_tag \<le> int (length parent_text)"
    by (simp_all add: fragment_tag_def parent_text_def)
  have inverse: "inverse_on_valid_offsets line_utils parent_text"
    by code_simp
  have local: "offsetAt line_utils ?p (content fragment_tag) = 5"
    by code_simp
  have position: "positionAt line_utils 5 (content fragment_tag) = ?p"
    by code_simp
  have original: "getOriginalPosition fragment_mapper ?p = \<lparr>Position.line = 1, character = 5\<rparr>"
    by code_simp
  have fixed: "positionAt line_utils (offsetAt line_utils ?p (content fragment_tag))
                 (content fragment_tag) = ?p"
    by (simp only: local position)
  have lower: "0 \<le> offsetAt line_utils ?p (content fragment_tag)"
    by (simp add: local)
  have upper: "offsetAt line_utils ?p (content fragment_tag)
                 \<le> TagInformation.end fragment_tag - TagInformation.start fragment_tag"
    unfolding local by (simp add: fragment_tag_def)
  have "getGeneratedPosition fragment_mapper (getOriginalPosition fragment_mapper ?p) = ?p"
    unfolding fragment_mapper_def
    by (rule FragmentMapper_round_trip [OF region inverse fixed lower upper])
  with region inverse local position original show ?thesis by simp
qed

text \<open>
  Claim C4: \<open>isInGenerated\<close> of the fragment mapper is true exactly for the original
  positions whose offset in the parent text lies in the closed interval from the
  fragment's start to its end; it is false one offset below the start and one offset
  above the end.
\<close>

theorem FragmentMapper_isInGenerated_boundary:
  "(isInGenerated (FragmentMapper utils originalText tagInfo url) p \<longleftrightarrow>
      TagInformation.start tagInfo \<le> offsetAt utils p originalText
      \<and> offsetAt utils p originalText \<le> TagInformation.end tagInfo)
   \<and> (offsetAt utils p originalText = TagInformation.start tagInfo - 1 \<longrightarrow>
        \<not> isInGenerated (FragmentMapper utils originalText tagInfo url) p)
   \<and> (offsetAt utils p originalText = TagInformation.end tagInfo + 1 \<longrightarrow>
        \<not> isInGenerated (FragmentMapper utils originalText tagInfo url) p)"
  by (simp add: FragmentMapper_selectors FragmentMapper_isInGenerated_def Let_def)

text \<open>
  C4 on the scenario of the spec, whose fragment reaches from offset 9 to offset 22:
  the positions at offsets 8 and 23 are outside, those at offsets 9 and 22 inside.
\<close>

theorem FragmentMapper_isInGenerated_boundary_witness:
  "offsetAt line_utils \<lparr>Position.line = 0, character = 8\<rparr> parent_text
     = TagInformation.start fragment_tag - 1
   \<and> \<not> isInGenerated fragment_mapper \<lparr>Position.line = 0, character = 8\<rparr>
   \<and> offsetAt line_utils \<lparr>Position.line = 2, character = 0\<rparr> parent_text
     = TagInformation.end fragment_tag + 1
   \<and> \<not> isInGenerated fragment_mapper \<lparr>Position.line = 2, character = 0\<rparr>
   \<and> offsetAt line_utils \<lparr>Position.line = 1, character = 0\<rparr> parent_text
     = TagInformation.start fragment_tag
   \<and> isInGenerated fragment_mapper \<lparr>Position.line = 1, character = 0\<rparr>
   \<and> offsetAt line_utils \<lparr>Position.line = 1, character = 13\<rparr> parent_text
     = TagInformation.end fragment_tag
   \<and> isInGenerated fragment_mapper \<lparr>Position.line = 1, character = 13\<rparr>"
proof -
  have below: "offsetAt line_utils \<lparr>Position.line = 0, character = 8\<rparr> parent_text
                 = TagInformation.start fragment_tag - 1"
    by code_simp
  have above: "offsetAt line_utils \<lparr>Position.line = 2, character = 0\<rparr> parent_text
                 = TagInformation.end fragment_tag + 1"
    by code_simp
  have first: "offsetAt line_utils \<lparr>Position.line = 1, character = 0\<rparr> parent_text
                 = TagInformation.start fragment_tag"
    by code_simp
  have last: "offsetAt line_utils \<lparr>Position.line = 1, character = 13\<rparr> parent_text
                 = TagInformation.end fragment_tag"
    by code_simp
  have inside: "TagInformation.start fragment_tag \<le> TagInformation.end fragment_tag"
    by (simp add: fragment_tag_def)
  show ?thesis
    unfolding fragment_mapper_def
    using below above first last inside
      FragmentMapper_isInGenerated_boundary
        [of line_utils parent_text fragment_tag "''a.txt''" "\<lparr>Position.line = 0, character = 8\<rparr>"]
      FragmentMapper_isInGenerated_boundary
        [of line_utils parent_text fragment_tag "''a.txt''" "\<lparr>Position.line = 2, character = 0\<rparr>"]
      FragmentMapper_isInGenerated_boundary
        [of line_utils parent_text fragment_tag "''a.txt''" "\<lparr>Position.line = 1, character = 0\<rparr>"]
      FragmentMapper_isInGenerated_boundary
        [of line_utils parent_text fragment_tag "''a.txt''" "\<lparr>Position.line = 1, character = 13\<rparr>"]
    by simp
qed


section \<open>The remapping functions\<close>

lemma mapRangeToOriginal_endpoints:
  "mapRangeToOriginal fragment r =
     \<lparr>Range.start = getOriginalPosition fragment (Range.start r),
      Range.end = getOriginalPosition fragment (Range.end r)\<rparr>"
  by (simp add: mapRangeToOriginal_def Range_create_def)

lemma fragment_mapper_generated_range:
  "mapRangeToOriginal fragment_mapper generated_range = original_range"
  by code_simp

lemma fragment_mapper_URL: "getURL fragment_mapper = ''a.txt''"
  by (simp add: fragment_mapper_def FragmentMapper_selectors)

text \<open>
  Claim C5: the target range and the target-selection range of a location link are
  mapped with \<open>getOriginalPosition\<close> when the link's \<open>targetUri\<close> equals the mapper's
  URL, and are the input's when it differs; the origin-selection range, when present,
  is mapped whatever the \<open>targetUri\<close> is.
\<close>

theorem mapLocationLinkToOriginal_target:
  "(getURL fragment = targetUri def \<longrightarrow>
      targetRange (mapLocationLinkToOriginal fragment def)
        = \<lparr>Range.start = getOriginalPosition fragment (Range.start (targetRange def)),
           Range.end = getOriginalPosition fragment (Range.end (targetRange def))\<rparr>
      \<and> targetSelectionRange (mapLocationLinkToOriginal fragment def)
        = \<lparr>Range.start = getOriginalPosition fragment (Range.start (targetSelectionRange def)),
           Range.end = getOriginalPosition fragment (Range.end (targetSelectionRange def))\<rparr>)
   \<and> (getURL fragment \<noteq> targetUri def \<longrightarrow>
      targetRange (mapLocationLinkToOriginal fragment def) = targetRange def
      \<and> targetSelectionRange (mapLocationLinkToOriginal fragment def)
        = targetSelectionRange def)
   \<and> originSelectionRange (mapLocationLinkToOriginal fragment def)
        = map_option
            (\<lambda>r. \<lparr>Range.start = getOriginalPosition fragment (Range.start r),
                   Range.end = getOriginalPosition fragment (Range.end r)\<rparr>)
            (originSelectionRange def)
   \<and> targetUri (mapLocationLinkToOriginal fragment def) = targetUri def"
  by (simp add: mapLocationLinkToOriginal_def LocationLink_create_def
      mapRangeToOriginal_endpoints split: option.split)

text \<open>
  C5 for the mapper with URL \<^verbatim>\<open>a.txt\<close>: the link into \<^verbatim>\<open>a.txt\<close> has its three ranges
  mapped, the link into \<^verbatim>\<open>b.txt\<close> keeps its target ranges and has its
  origin-selection range mapped.
\<close>

theorem mapLocationLinkToOriginal_target_witness:
  "getURL fragment_mapper = targetUri (link_to ''a.txt'')
   \<and> mapLocationLinkToOriginal fragment_mapper (link_to ''a.txt'')
       = \<lparr>originSelectionRange = Some original_range, targetUri = ''a.txt'',
          targetRange = original_range, targetSelectionRange = original_range\<rparr>
   \<and> getURL fragment_mapper \<noteq> targetUri (link_to ''b.txt'')
   \<and> mapLocationLinkToOriginal fragment_mapper (link_to ''b.txt'')
       = \<lparr>originSelectionRange = Some original_range, targetUri = ''b.txt'',
          targetRange = generated_range, targetSelectionRange = generated_range\<rparr>"
proof -
  have same: "getURL fragment_mapper = targetUri (link_to ''a.txt'')"
    by (simp add: fragment_mapper_URL link_to_def)
  have other: "getURL fragment_mapper \<noteq> targetUri (link_to ''b.txt'')"
    by (simp add: fragment_mapper_URL link_to_def)
  have mapped: "\<lparr>Range.start = getOriginalPosition fragment_mapper (Range.start generated_range),
                  Range.end = getOriginalPosition fragment_mapper (Range.end generated_range)\<rparr>
                = original_range"
    using fragment_mapper_generated_range by (simp add: mapRangeToOriginal_endpoints)
  have fields: "targetRange (link_to u) = generated_range"
    "targetSelectionRange (link_to u) = generated_range"
    "originSelectionRange (link_to u) = Some generated_range"
    "targetUri (link_to u) = u" for u
    by (simp_all add: link_to_def)
  have "mapLocationLinkToOriginal fragment_mapper (link_to ''a.txt'')
          = \<lparr>originSelectionRange = Some original_range, targetUri = ''a.txt'',
             targetRange = original_range, targetSelectionRange = original_range\<rparr>"
    using same mapLocationLinkToOriginal_target [of fragment_mapper "link_to ''a.txt''"]
    by (simp add: fields mapped)
  moreover
  have "mapLocationLinkToOriginal fragment_mapper (link_to ''b.txt'')
          = \<lparr>originSelectionRange = Some original_range, targetUri = ''b.txt'',
             targetRange = generated_range, targetSelectionRange = generated_range\<rparr>"
    using other mapLocationLinkToOriginal_target [of fragment_mapper "link_to ''b.txt''"]
    by (simp add: fields mapped)
  ultimately show ?thesis using same other by simp
qed

lemma mapTextEditToOriginal_fields:
  "TextEdit.range (mapTextEditToOriginal fragment e) = mapRangeToOriginal fragment (TextEdit.range e)"
  "newText (mapTextEditToOriginal fragment e) = newText e"
  "TextEdit.more (mapTextEditToOriginal fragment e) = TextEdit.more e"
  by (simp_all add: mapTextEditToOriginal_def)

lemma fragment_mapper_edits:
  "map (mapTextEditToOriginal fragment_mapper) (edits (edits_of owner))
     = [\<lparr>TextEdit.range = original_range, newText = ''x''\<rparr>,
        \<lparr>TextEdit.range = original_range, newText = ''y''\<rparr>]"
  by (simp add: edits_of_def mapTextEditToOriginal_def fragment_mapper_generated_range)

text \<open>
  Claim C6: when the owning document URI of a text-document edit set equals the mapper's
  URL, every contained edit has its range mapped with \<open>getOriginalPosition\<close> (its new
  text and the document identifier are kept); when the URI differs, the result is the
  input.
\<close>

theorem mapTextDocumentEditToOriginal_owner:
  "(VersionedTextDocumentIdentifier.uri (textDocument edit') = getURL fragment \<longrightarrow>
      textDocument (mapTextDocumentEditToOriginal fragment edit') = textDocument edit'
      \<and> edits (mapTextDocumentEditToOriginal fragment edit')
          = map (mapTextEditToOriginal fragment) (edits edit')
      \<and> map TextEdit.range (edits (mapTextDocumentEditToOriginal fragment edit'))
          = map (\<lambda>e. \<lparr>Range.start = getOriginalPosition fragment (Range.start (TextEdit.range e)),
                        Range.end = getOriginalPosition fragment (Range.end (TextEdit.range e))\<rparr>)
                (edits edit')
      \<and> map newText (edits (mapTextDocumentEditToOriginal fragment edit'))
          = map newText (edits edit'))
   \<and> (VersionedTextDocumentIdentifier.uri (textDocument edit') \<noteq> getURL fragment \<longrightarrow>
      mapTextDocumentEditToOriginal fragment edit' = edit')"
  by (simp add: mapTextDocumentEditToOriginal_def TextDocumentEdit_create_def
      mapTextEditToOriginal_fields mapRangeToOriginal_endpoints comp_def)

text \<open>
  C6 for the mapper with URL \<^verbatim>\<open>a.txt\<close>: the two edits owned by \<^verbatim>\<open>a.txt\<close> are mapped,
  the edit set owned by \<^verbatim>\<open>b.txt\<close> is returned as it is.
\<close>

theorem mapTextDocumentEditToOriginal_owner_witness:
  "VersionedTextDocumentIdentifier.uri (textDocument (edits_of ''a.txt'')) = getURL fragment_mapper
   \<and> mapTextDocumentEditToOriginal fragment_mapper (edits_of ''a.txt'')
       = \<lparr>textDocument = \<lparr>VersionedTextDocumentIdentifier.uri = ''a.txt'', version = Some 1\<rparr>,
          edits = [\<lparr>TextEdit.range = original_range, newText = ''x''\<rparr>,
                   \<lparr>TextEdit.range = original_range, newText = ''y''\<rparr>]\<rparr>
   \<and> VersionedTextDocumentIdentifier.uri (textDocument (edits_of ''b.txt'')) \<noteq> getURL fragment_mapper
   \<and> mapTextDocumentEditToOriginal fragment_mapper (edits_of ''b.txt'') = edits_of ''b.txt''"
proof -
  have same: "VersionedTextDocumentIdentifier.uri (textDocument (edits_of ''a.txt''))
                = getURL fragment_mapper"
    by (simp add: fragment_mapper_URL edits_of_def)
  have other: "VersionedTextDocumentIdentifier.uri (textDocument (edits_of ''b.txt''))
                 \<noteq> getURL fragment_mapper"
    by (simp add: fragment_mapper_URL edits_of_def)
  have document: "textDocument (edits_of ''a.txt'')
                    = \<lparr>VersionedTextDocumentIdentifier.uri = ''a.txt'', version = Some 1\<rparr>"
    by (simp add: edits_of_def)
  note owner_a = mapTextDocumentEditToOriginal_owner [of "edits_of ''a.txt''" fragment_mapper]
  note owner_b = mapTextDocumentEditToOriginal_owner [of "edits_of ''b.txt''" fragment_mapper]
  from owner_a same
  have "textDocument (mapTextDocumentEditToOriginal fragment_mapper (edits_of ''a.txt''))
          = textDocument (edits_of ''a.txt'')"
    and "edits (mapTextDocumentEditToOriginal fragment_mapper (edits_of ''a.txt''))
          = map (mapTextEditToOriginal fragment_mapper) (edits (edits_of ''a.txt''))"
    by blast+
  then have mapped:
    "textDocument (mapTextDocumentEditToOriginal fragment_mapper (edits_of ''a.txt''))
       = \<lparr>VersionedTextDocumentIdentifier.uri = ''a.txt'', version = Some 1\<rparr>"
    "edits (mapTextDocumentEditToOriginal fragment_mapper (edits_of ''a.txt''))
       = [\<lparr>TextEdit.range = original_range, newText = ''x''\<rparr>,
          \<lparr>TextEdit.range = original_range, newText = ''y''\<rparr>]"
    by (simp_all only: document fragment_mapper_edits)
  have "mapTextDocumentEditToOriginal fragment_mapper (edits_of ''a.txt'')
          = \<lparr>textDocument = \<lparr>VersionedTextDocumentIdentifier.uri = ''a.txt'', version = Some 1\<rparr>,
             edits = [\<lparr>TextEdit.range = original_range, newText = ''x''\<rparr>,
                      \<lparr>TextEdit.range = original_range, newText = ''y''\<rparr>]\<rparr>"
    by (rule TextDocumentEdit.equality) (simp_all add: mapped)
  moreover
  from owner_b other
  have "mapTextDocumentEditToOriginal fragment_mapper (edits_of ''b.txt'') = edits_of ''b.txt''"
    by blast
  ultimately show ?thesis using same other by blast
qed

lemma map_throwing_text_document_edits:
  "map_throwing (mapDocumentChange fragment) (map TextDocumentEditChange tdes)
     = Inr (map (\<lambda>e. TextDocumentEditChange (mapTextDocumentEditToOriginal fragment e)) tdes)"
  by (induction tdes) (simp_all add: mapDocumentChange_def)

lemma fragment_mapper_document_changes:
  "mapTextDocumentEditToOriginal fragment_mapper (edits_of ''a.txt'')
     = \<lparr>textDocument = \<lparr>VersionedTextDocumentIdentifier.uri = ''a.txt'', version = Some 1\<rparr>,
        edits = [\<lparr>TextEdit.range = original_range, newText = ''x''\<rparr>,
                 \<lparr>TextEdit.range = original_range, newText = ''y''\<rparr>]\<rparr>"
  "mapTextDocumentEditToOriginal fragment_mapper (edits_of ''b.txt'') = edits_of ''b.txt''"
proof -
  show "mapTextDocumentEditToOriginal fragment_mapper (edits_of ''a.txt'')
          = \<lparr>textDocument = \<lparr>VersionedTextDocumentIdentifier.uri = ''a.txt'', version = Some 1\<rparr>,
             edits = [\<lparr>TextEdit.range = original_range, newText = ''x''\<rparr>,
                      \<lparr>TextEdit.range = original_range, newText = ''y''\<rparr>]\<rparr>"
    by (simp add: mapTextDocumentEditToOriginal_def TextDocumentEdit_create_def
        fragment_mapper_URL fragment_mapper_edits) (simp add: edits_of_def)
  show "mapTextDocumentEditToOriginal fragment_mapper (edits_of ''b.txt'') = edits_of ''b.txt''"
    by (simp add: mapTextDocumentEditToOriginal_def fragment_mapper_URL) (simp add: edits_of_def)
qed

lemma quick_fix_edit:
  "edit quick_fix
     = Some \<lparr>changes = None,
             documentChanges = Some (map TextDocumentEditChange
                                         [edits_of ''a.txt'', edits_of ''b.txt''])\<rparr>"
  "documentChanges \<lparr>changes = None,
                    documentChanges = Some (map TextDocumentEditChange
                                                [edits_of ''a.txt'', edits_of ''b.txt''])\<rparr>
     = Some (map TextDocumentEditChange [edits_of ''a.txt'', edits_of ''b.txt''])"
  by (simp_all add: quick_fix_def)

text \<open>
  Claim C7: for a code action whose edit carries a list of text-document edits,
  \<open>mapCodeActionToOriginal\<close> returns a code action with the input's title and kind whose
  edit's \<open>documentChanges\<close> is the input's list with every text-document edit remapped.
\<close>

theorem mapCodeActionToOriginal_documentChanges:
  assumes "edit codeAction = Some workspaceEdit"
    and "documentChanges workspaceEdit = Some (map TextDocumentEditChange tdes)"
  shows "\<exists>r edit'. mapCodeActionToOriginal fragment codeAction = Inr r
           \<and> CodeAction.title r = CodeAction.title codeAction
           \<and> kind r = kind codeAction
           \<and> edit r = Some edit'
           \<and> documentChanges edit'
               = Some (map (\<lambda>e. TextDocumentEditChange (mapTextDocumentEditToOriginal fragment e))
                           tdes)"
  using assms
  by (simp add: mapCodeActionToOriginal_def map_throwing_text_document_edits
      CodeAction_create_def)

text \<open>
  C7 for the quick fix with one edit set owned by \<^verbatim>\<open>a.txt\<close> and one owned by
  \<^verbatim>\<open>b.txt\<close>.
\<close>

theorem mapCodeActionToOriginal_documentChanges_witness:
  "\<exists>r edit'. mapCodeActionToOriginal fragment_mapper quick_fix = Inr r
     \<and> CodeAction.title r = ''Fix''
     \<and> kind r = Some ''quickfix''
     \<and> edit r = Some edit'
     \<and> documentChanges edit'
         = Some [TextDocumentEditChange
                   \<lparr>textDocument =
                      \<lparr>VersionedTextDocumentIdentifier.uri = ''a.txt'', version = Some 1\<rparr>,
                    edits = [\<lparr>TextEdit.range = original_range, newText = ''x''\<rparr>,
                             \<lparr>TextEdit.range = original_range, newText = ''y''\<rparr>]\<rparr>,
                 TextDocumentEditChange (edits_of ''b.txt'')]"
proof -
  from mapCodeActionToOriginal_documentChanges [OF quick_fix_edit, of fragment_mapper]
  obtain r edit' where result:
    "mapCodeActionToOriginal fragment_mapper quick_fix = Inr r"
    "CodeAction.title r = CodeAction.title quick_fix"
    "kind r = kind quick_fix"
    "edit r = Some edit'"
    "documentChanges edit'
       = Some (map (\<lambda>e. TextDocumentEditChange
                            (mapTextDocumentEditToOriginal fragment_mapper e))
                   [edits_of ''a.txt'', edits_of ''b.txt''])"
    by blast
  have "CodeAction.title quick_fix = ''Fix''" "kind quick_fix = Some ''quickfix''"
    by (simp_all add: quick_fix_def)
  with result show ?thesis
    by (simp add: fragment_mapper_document_changes)
qed

text \<open>
  Claim C10: the code action returned by \<open>mapCodeActionToOriginal\<close> carries the input's
  title, the rebuilt edit (with \<open>documentChanges\<close> only) and the input's kind; its
  diagnostics, isPreferred, command and data are absent whatever the input's are.
\<close>

theorem mapCodeActionToOriginal_other_fields_absent:
  assumes "edit codeAction = Some workspaceEdit"
    and "documentChanges workspaceEdit = Some (map TextDocumentEditChange tdes)"
  shows "mapCodeActionToOriginal fragment codeAction
           = Inr \<lparr>CodeAction.title = CodeAction.title codeAction,
                  kind = kind codeAction,
                  diagnostics = None,
                  isPreferred = None,
                  edit = Some \<lparr>changes = None,
                               documentChanges =
                                 Some (map (\<lambda>e. TextDocumentEditChange
                                                   (mapTextDocumentEditToOriginal fragment e))
                                           tdes)\<rparr>,
                  command = None,
                  data = None\<rparr>"
  using assms
  by (simp add: mapCodeActionToOriginal_def map_throwing_text_document_edits
      CodeAction_create_def)

text \<open>
  C10 for the quick fix, which has diagnostics, isPreferred, a command and data: none of
  them is in the result.
\<close>

theorem mapCodeActionToOriginal_other_fields_absent_witness:
  "diagnostics quick_fix \<noteq> None \<and> isPreferred quick_fix = Some True
   \<and> command quick_fix \<noteq> None \<and> data quick_fix = Some ''d''
   \<and> mapCodeActionToOriginal fragment_mapper quick_fix
       = Inr \<lparr>CodeAction.title = ''Fix'', kind = Some ''quickfix'',
              diagnostics = None, isPreferred = None,
              edit = Some \<lparr>changes = None,
                           documentChanges =
                             Some [TextDocumentEditChange
                                     \<lparr>textDocument =
                                        \<lparr>VersionedTextDocumentIdentifier.uri = ''a.txt'',
                                         version = Some 1\<rparr>,
                                      edits = [\<lparr>TextEdit.range = original_range, newText = ''x''\<rparr>,
                                               \<lparr>TextEdit.range = original_range, newText = ''y''\<rparr>]\<rparr>,
                                   TextDocumentEditChange (edits_of ''b.txt'')]\<rparr>,
              command = None, data = None\<rparr>"
proof -
  have present: "diagnostics quick_fix \<noteq> None" "isPreferred quick_fix = Some True"
    "command quick_fix \<noteq> None" "data quick_fix = Some ''d''"
    by (simp_all add: quick_fix_def)
  have kept: "CodeAction.title quick_fix = ''Fix''" "kind quick_fix = Some ''quickfix''"
    by (simp_all add: quick_fix_def)
  from mapCodeActionToOriginal_other_fields_absent [OF quick_fix_edit, of fragment_mapper]
  have "mapCodeActionToOriginal fragment_mapper quick_fix
          = Inr \<lparr>CodeAction.title = ''Fix'', kind = Some ''quickfix'',
                 diagnostics = None, isPreferred = None,
                 edit = Some \<lparr>changes = None,
                              documentChanges =
                                Some [TextDocumentEditChange
                                        \<lparr>textDocument =
                                           \<lparr>VersionedTextDocumentIdentifier.uri = ''a.txt'',
                                            version = Some 1\<rparr>,
                                         edits = [\<lparr>TextEdit.range = original_range, newText = ''x''\<rparr>,
                                                  \<lparr>TextEdit.range = original_range, newText = ''y''\<rparr>]\<rparr>,
                                      TextDocumentEditChange (edits_of ''b.txt'')]\<rparr>,
                 command = None, data = None\<rparr>"
    by (simp add: kept fragment_mapper_document_changes)
  with present show ?thesis by blast
qed

text \<open>
  Claim C8: a completion item without a text edit and a hover without a range are
  returned as they are; both functions return a value and have no failing branch.
\<close>

theorem missing_optional_field_identity:
  "(CompletionItem.textEdit item = None \<longrightarrow> mapCompletionItemToOriginal fragment item = item)
   \<and> (Hover.range hover = None \<longrightarrow> mapHoverToParent fragment hover = hover)"
  by (simp add: mapCompletionItemToOriginal_def mapHoverToParent_def)

text \<open>C8 for a completion item with a label only and a hover with contents only.\<close>

theorem missing_optional_field_identity_witness:
  "CompletionItem.textEdit plain_item = None
   \<and> mapCompletionItemToOriginal fragment_mapper plain_item = plain_item
   \<and> Hover.range plain_hover = None
   \<and> mapHoverToParent fragment_mapper plain_hover = plain_hover"
proof -
  have absent: "CompletionItem.textEdit plain_item = None" "Hover.range plain_hover = None"
    by (simp_all add: plain_item_def plain_hover_def)
  with missing_optional_field_identity [of plain_item fragment_mapper plain_hover]
  show ?thesis by simp
qed

text \<open>
  Claim C9: each of the remapping functions for a diagnostic, a color presentation, a
  color information, a symbol information, a location and a text edit returns its input
  with the range-bearing field replaced: putting the input's field back gives the input,
  so every other field (also of an extension of the record) is the input's. The
  replaced range has the input range's start and end, each mapped with
  \<open>getOriginalPosition\<close>; a color presentation has the range of its primary edit, when
  present, and the range of each of its additional edits, when present, mapped in this
  way, every edit on its own and with its new text kept, and the location of a symbol
  information keeps its uri.
\<close>

theorem remapping_frame:
  "(mapDiagnosticToOriginal fragment diagnostic)
       \<lparr>Diagnostic.range := Diagnostic.range diagnostic\<rparr> = diagnostic
   \<and> Diagnostic.range (mapDiagnosticToOriginal fragment diagnostic)
       = \<lparr>Range.start = getOriginalPosition fragment (Range.start (Diagnostic.range diagnostic)),
          Range.end = getOriginalPosition fragment (Range.end (Diagnostic.range diagnostic))\<rparr>
   \<and> (mapColorInformationToOriginal fragment info)
       \<lparr>ColorInformation.range := ColorInformation.range info\<rparr> = info
   \<and> ColorInformation.range (mapColorInformationToOriginal fragment info)
       = \<lparr>Range.start = getOriginalPosition fragment (Range.start (ColorInformation.range info)),
          Range.end = getOriginalPosition fragment (Range.end (ColorInformation.range info))\<rparr>
   \<and> (mapLocationToOriginal fragment loc)\<lparr>Location.range := Location.range loc\<rparr> = loc
   \<and> Location.range (mapLocationToOriginal fragment loc)
       = \<lparr>Range.start = getOriginalPosition fragment (Range.start (Location.range loc)),
          Range.end = getOriginalPosition fragment (Range.end (Location.range loc))\<rparr>
   \<and> (mapTextEditToOriginal fragment textEdit')
       \<lparr>TextEdit.range := TextEdit.range textEdit'\<rparr> = textEdit'
   \<and> TextEdit.range (mapTextEditToOriginal fragment textEdit')
       = \<lparr>Range.start = getOriginalPosition fragment (Range.start (TextEdit.range textEdit')),
          Range.end = getOriginalPosition fragment (Range.end (TextEdit.range textEdit'))\<rparr>
   \<and> (mapSymbolInformationToOriginal fragment symbol)\<lparr>location := location symbol\<rparr> = symbol
   \<and> Location.uri (location (mapSymbolInformationToOriginal fragment symbol))
       = Location.uri (location symbol)
   \<and> Location.more (location (mapSymbolInformationToOriginal fragment symbol))
       = Location.more (location symbol)
   \<and> Location.range (location (mapSymbolInformationToOriginal fragment symbol))
       = \<lparr>Range.start =
            getOriginalPosition fragment (Range.start (Location.range (location symbol))),
          Range.end =
            getOriginalPosition fragment (Range.end (Location.range (location symbol)))\<rparr>
   \<and> (mapColorPresentationToOriginal fragment presentation)
       \<lparr>ColorPresentation.textEdit := ColorPresentation.textEdit presentation,
        additionalTextEdits := additionalTextEdits presentation\<rparr> = presentation
   \<and> ColorPresentation.textEdit (mapColorPresentationToOriginal fragment presentation)
       = map_option
           (\<lambda>e. \<lparr>TextEdit.range =
                    \<lparr>Range.start = getOriginalPosition fragment (Range.start (TextEdit.range e)),
                     Range.end = getOriginalPosition fragment (Range.end (TextEdit.range e))\<rparr>,
                  newText = newText e\<rparr>)
           (ColorPresentation.textEdit presentation)
   \<and> additionalTextEdits (mapColorPresentationToOriginal fragment presentation)
       = map_option
           (map (\<lambda>e. \<lparr>TextEdit.range =
                         \<lparr>Range.start =
                            getOriginalPosition fragment (Range.start (TextEdit.range e)),
                          Range.end =
                            getOriginalPosition fragment (Range.end (TextEdit.range e))\<rparr>,
                       newText = newText e\<rparr>))
           (additionalTextEdits presentation)"
proof -
  have text_edit: "mapTextEditToOriginal fragment e
      = \<lparr>TextEdit.range =
           \<lparr>Range.start = getOriginalPosition fragment (Range.start (TextEdit.range e)),
            Range.end = getOriginalPosition fragment (Range.end (TextEdit.range e))\<rparr>,
         newText = newText e\<rparr>" for e :: TextEdit
    by (simp add: mapTextEditToOriginal_def mapRangeToOriginal_endpoints)
  show ?thesis
    by (simp add: mapDiagnosticToOriginal_def mapColorInformationToOriginal_def
        mapLocationToOriginal_def mapSymbolInformationToOriginal_def
        mapColorPresentationToOriginal_def text_edit mapTextEditToOriginal_fields
        mapRangeToOriginal_endpoints Let_def split: option.split)
qed

text \<open>
  C9 for the mapper of the spec's scenario: every range on generated line 0 becomes the
  range with the same columns on original line 1, and every other field is the input's.
  The color presentation has a primary edit and two additional edits; its three ranges
  are mapped one by one, and its label and the new texts are kept.
\<close>

theorem remapping_frame_witness:
  "mapDiagnosticToOriginal fragment_mapper sample_diagnostic
     = \<lparr>Diagnostic.range = line_range 1 0 5, severity = Some 1, code = Some ''2304'',
        source = Some ''ts'', message = ''Cannot find name''\<rparr>
   \<and> mapColorInformationToOriginal fragment_mapper sample_color
     = \<lparr>ColorInformation.range = line_range 1 1 2, color = ''red''\<rparr>
   \<and> mapLocationToOriginal fragment_mapper sample_location
     = \<lparr>Location.uri = ''a.txt'', range = line_range 1 3 13\<rparr>
   \<and> mapTextEditToOriginal fragment_mapper sample_edit
     = \<lparr>TextEdit.range = line_range 1 2 3, newText = ''new''\<rparr>
   \<and> mapSymbolInformationToOriginal fragment_mapper sample_symbol
     = \<lparr>name = ''body'', SymbolInformation.kind = 13,
        location = \<lparr>Location.uri = ''a.txt'', range = line_range 1 3 13\<rparr>,
        containerName = Some ''fragment''\<rparr>
   \<and> mapColorPresentationToOriginal fragment_mapper red_presentation
     = \<lparr>ColorPresentation.label = ''red'',
        textEdit = Some \<lparr>TextEdit.range = line_range 1 0 5, newText = ''red''\<rparr>,
        additionalTextEdits =
          Some [\<lparr>TextEdit.range = line_range 1 1 2, newText = ''p''\<rparr>,
                \<lparr>TextEdit.range = line_range 1 3 13, newText = ''q''\<rparr>]\<rparr>"
proof -
  let ?d = "mapDiagnosticToOriginal fragment_mapper sample_diagnostic"
  let ?c = "mapColorInformationToOriginal fragment_mapper sample_color"
  let ?l = "mapLocationToOriginal fragment_mapper sample_location"
  let ?e = "mapTextEditToOriginal fragment_mapper sample_edit"
  let ?s = "mapSymbolInformationToOriginal fragment_mapper sample_symbol"
  let ?p = "mapColorPresentationToOriginal fragment_mapper red_presentation"
  note frame = remapping_frame
    [where fragment = fragment_mapper and diagnostic = sample_diagnostic
       and info = sample_color and loc = sample_location and textEdit' = sample_edit
       and symbol = sample_symbol and presentation = red_presentation]
  have positions:
    "getOriginalPosition fragment_mapper \<lparr>Position.line = 0, character = 0\<rparr>
       = \<lparr>Position.line = 1, character = 0\<rparr>"
    "getOriginalPosition fragment_mapper \<lparr>Position.line = 0, character = 1\<rparr>
       = \<lparr>Position.line = 1, character = 1\<rparr>"
    "getOriginalPosition fragment_mapper \<lparr>Position.line = 0, character = 2\<rparr>
       = \<lparr>Position.line = 1, character = 2\<rparr>"
    "getOriginalPosition fragment_mapper \<lparr>Position.line = 0, character = 3\<rparr>
       = \<lparr>Position.line = 1, character = 3\<rparr>"
    "getOriginalPosition fragment_mapper \<lparr>Position.line = 0, character = 5\<rparr>
       = \<lparr>Position.line = 1, character = 5\<rparr>"
    "getOriginalPosition fragment_mapper \<lparr>Position.line = 0, character = 13\<rparr>
       = \<lparr>Position.line = 1, character = 13\<rparr>"
    by code_simp+
  have mapped: "\<lparr>Range.start = getOriginalPosition fragment_mapper (Range.start (line_range 0 a b)),
                  Range.end = getOriginalPosition fragment_mapper (Range.end (line_range 0 a b))\<rparr>
                = line_range 1 a b"
    if "a \<in> {0, 1, 2, 3, 5, 13}" and "b \<in> {0, 1, 2, 3, 5, 13}" for a b
    using that by (auto simp add: line_range_def positions)

  from frame
  have "?d\<lparr>Diagnostic.range := Diagnostic.range sample_diagnostic\<rparr> = sample_diagnostic"
    and "Diagnostic.range ?d
           = \<lparr>Range.start = getOriginalPosition fragment_mapper
                                (Range.start (Diagnostic.range sample_diagnostic)),
              Range.end = getOriginalPosition fragment_mapper
                              (Range.end (Diagnostic.range sample_diagnostic))\<rparr>"
    by blast+
  moreover have "?d = (?d\<lparr>Diagnostic.range := Diagnostic.range sample_diagnostic\<rparr>)
                        \<lparr>Diagnostic.range := Diagnostic.range ?d\<rparr>"
    by simp
  ultimately have "?d = sample_diagnostic
      \<lparr>Diagnostic.range :=
         \<lparr>Range.start = getOriginalPosition fragment_mapper
                            (Range.start (Diagnostic.range sample_diagnostic)),
          Range.end = getOriginalPosition fragment_mapper
                          (Range.end (Diagnostic.range sample_diagnostic))\<rparr>\<rparr>"
    by simp
  then have diagnostic: "?d = \<lparr>Diagnostic.range = line_range 1 0 5, severity = Some 1,
      code = Some ''2304'', source = Some ''ts'', message = ''Cannot find name''\<rparr>"
    by (simp add: sample_diagnostic_def mapped)

  from frame
  have "?c\<lparr>ColorInformation.range := ColorInformation.range sample_color\<rparr> = sample_color"
    and "ColorInformation.range ?c
           = \<lparr>Range.start = getOriginalPosition fragment_mapper
                                (Range.start (ColorInformation.range sample_color)),
              Range.end = getOriginalPosition fragment_mapper
                              (Range.end (ColorInformation.range sample_color))\<rparr>"
    by blast+
  moreover have "?c = (?c\<lparr>ColorInformation.range := ColorInformation.range sample_color\<rparr>)
                        \<lparr>ColorInformation.range := ColorInformation.range ?c\<rparr>"
    by simp
  ultimately have "?c = sample_color
      \<lparr>ColorInformation.range :=
         \<lparr>Range.start = getOriginalPosition fragment_mapper
                            (Range.start (ColorInformation.range sample_color)),
          Range.end = getOriginalPosition fragment_mapper
                          (Range.end (ColorInformation.range sample_color))\<rparr>\<rparr>"
    by simp
  then have color: "?c = \<lparr>ColorInformation.range = line_range 1 1 2, color = ''red''\<rparr>"
    by (simp add: sample_color_def mapped)

  from frame
  have "?l\<lparr>Location.range := Location.range sample_location\<rparr> = sample_location"
    and "Location.range ?l
           = \<lparr>Range.start = getOriginalPosition fragment_mapper
                                (Range.start (Location.range sample_location)),
              Range.end = getOriginalPosition fragment_mapper
                              (Range.end (Location.range sample_location))\<rparr>"
    by blast+
  moreover have "?l = (?l\<lparr>Location.range := Location.range sample_location\<rparr>)
                        \<lparr>Location.range := Location.range ?l\<rparr>"
    by simp
  ultimately have "?l = sample_location
      \<lparr>Location.range :=
         \<lparr>Range.start = getOriginalPosition fragment_mapper
                            (Range.start (Location.range sample_location)),
          Range.end = getOriginalPosition fragment_mapper
                          (Range.end (Location.range sample_location))\<rparr>\<rparr>"
    by simp
  then have location: "?l = \<lparr>Location.uri = ''a.txt'', range = line_range 1 3 13\<rparr>"
    by (simp add: sample_location_def mapped)

  from frame
  have "?e\<lparr>TextEdit.range := TextEdit.range sample_edit\<rparr> = sample_edit"
    and "TextEdit.range ?e
           = \<lparr>Range.start = getOriginalPosition fragment_mapper
                                (Range.start (TextEdit.range sample_edit)),
              Range.end = getOriginalPosition fragment_mapper
                              (Range.end (TextEdit.range sample_edit))\<rparr>"
    by blast+
  moreover have "?e = (?e\<lparr>TextEdit.range := TextEdit.range sample_edit\<rparr>)
                        \<lparr>TextEdit.range := TextEdit.range ?e\<rparr>"
    by simp
  ultimately have "?e = sample_edit
      \<lparr>TextEdit.range :=
         \<lparr>Range.start = getOriginalPosition fragment_mapper
                            (Range.start (TextEdit.range sample_edit)),
          Range.end = getOriginalPosition fragment_mapper
                          (Range.end (TextEdit.range sample_edit))\<rparr>\<rparr>"
    by simp
  then have edit: "?e = \<lparr>TextEdit.range = line_range 1 2 3, newText = ''new''\<rparr>"
    by (simp add: sample_edit_def mapped)

  from frame
  have "?s\<lparr>location := SymbolInformation.location sample_symbol\<rparr> = sample_symbol"
    and "Location.uri (SymbolInformation.location ?s)
           = Location.uri (SymbolInformation.location sample_symbol)"
    and "Location.range (SymbolInformation.location ?s)
           = \<lparr>Range.start =
                getOriginalPosition fragment_mapper
                  (Range.start (Location.range (SymbolInformation.location sample_symbol))),
              Range.end =
                getOriginalPosition fragment_mapper
                  (Range.end (Location.range (SymbolInformation.location sample_symbol)))\<rparr>"
    by blast+
  moreover have "?s = (?s\<lparr>location := SymbolInformation.location sample_symbol\<rparr>)
      \<lparr>location := \<lparr>Location.uri = Location.uri (SymbolInformation.location ?s),
                     range = Location.range (SymbolInformation.location ?s)\<rparr>\<rparr>"
    by simp
  ultimately have "?s = sample_symbol
      \<lparr>location :=
         \<lparr>Location.uri = Location.uri (SymbolInformation.location sample_symbol),
          range =
            \<lparr>Range.start =
               getOriginalPosition fragment_mapper
                 (Range.start (Location.range (SymbolInformation.location sample_symbol))),
             Range.end =
               getOriginalPosition fragment_mapper
                 (Range.end (Location.range (SymbolInformation.location sample_symbol)))\<rparr>\<rparr>\<rparr>"
    by simp
  then have symbol: "?s = \<lparr>name = ''body'', SymbolInformation.kind = 13,
      location = \<lparr>Location.uri = ''a.txt'', range = line_range 1 3 13\<rparr>,
      containerName = Some ''fragment''\<rparr>"
    by (simp add: sample_symbol_def sample_location_def mapped)

  from frame
  have "?p\<lparr>ColorPresentation.textEdit := ColorPresentation.textEdit red_presentation,
           additionalTextEdits := additionalTextEdits red_presentation\<rparr> = red_presentation"
    and "ColorPresentation.textEdit ?p
       = map_option
           (\<lambda>e. \<lparr>TextEdit.range =
                    \<lparr>Range.start = getOriginalPosition fragment_mapper
                                       (Range.start (TextEdit.range e)),
                     Range.end = getOriginalPosition fragment_mapper
                                     (Range.end (TextEdit.range e))\<rparr>,
                  newText = newText e\<rparr>)
           (ColorPresentation.textEdit red_presentation)"
    and "additionalTextEdits ?p
       = map_option
           (map (\<lambda>e. \<lparr>TextEdit.range =
                         \<lparr>Range.start = getOriginalPosition fragment_mapper
                                            (Range.start (TextEdit.range e)),
                          Range.end = getOriginalPosition fragment_mapper
                                          (Range.end (TextEdit.range e))\<rparr>,
                       newText = newText e\<rparr>))
           (additionalTextEdits red_presentation)"
    by blast+
  moreover have "?p = (?p\<lparr>ColorPresentation.textEdit := ColorPresentation.textEdit red_presentation,
                            additionalTextEdits := additionalTextEdits red_presentation\<rparr>)
      \<lparr>ColorPresentation.textEdit := ColorPresentation.textEdit ?p,
       additionalTextEdits := additionalTextEdits ?p\<rparr>"
    by simp
  ultimately have "?p = red_presentation
      \<lparr>ColorPresentation.textEdit :=
         map_option
           (\<lambda>e. \<lparr>TextEdit.range =
                    \<lparr>Range.start = getOriginalPosition fragment_mapper
                                       (Range.start (TextEdit.range e)),
                     Range.end = getOriginalPosition fragment_mapper
                                     (Range.end (TextEdit.range e))\<rparr>,
                  newText = newText e\<rparr>)
           (ColorPresentation.textEdit red_presentation),
       additionalTextEdits :=
         map_option
           (map (\<lambda>e. \<lparr>TextEdit.range =
                         \<lparr>Range.start = getOriginalPosition fragment_mapper
                                            (Range.start (TextEdit.range e)),
                          Range.end = getOriginalPosition fragment_mapper
                                          (Range.end (TextEdit.range e))\<rparr>,
                       newText = newText e\<rparr>))
           (additionalTextEdits red_presentation)\<rparr>"
    by simp
  then have presentation: "?p = \<lparr>ColorPresentation.label = ''red'',
      textEdit = Some \<lparr>TextEdit.range = line_range 1 0 5, newText = ''red''\<rparr>,
      additionalTextEdits =
        Some [\<lparr>TextEdit.range = line_range 1 1 2, newText = ''p''\<rparr>,
              \<lparr>TextEdit.range = line_range 1 3 13, newText = ''q''\<rparr>]\<rparr>"
    by (simp add: red_presentation_def mapped)

  from diagnostic color location edit symbol presentation show ?thesis
    by blast
qed

end
